theory Spec2Isabelle
  imports Complex_Main
begin

section \<open>Python values, exceptions and results\<close>

text \<open>
  The pipeline of \<^verbatim>\<open>core.py\<close> passes dynamically typed values between its stages:
  the context is ``any'' value, hooks return whatever they like, and the remote
  endpoint answers with arbitrary JSON. Values are therefore a datatype. A dict keeps
  its items in insertion order, keyed by strings; \<open>map_of\<close> reads it.
  Strings are ASCII text, one \<open>char\<close> per character.
\<close>

datatype pyval =
    PNone
  | PBool bool
  | PInt int
  | PFloat real
  | PStr string
  | PList "pyval list"
  | PDict "(string \<times> pyval) list"

text \<open>
  Exceptions, by class, each with its message. \<open>PipelineError\<close> is the class
  \<^verbatim>\<open>core.py\<close> declares; the others are the classes of Python, of \<^verbatim>\<open>requests\<close>
  and of \<^verbatim>\<open>pydantic\<close> that the code can meet. All of them derive from
  \<^verbatim>\<open>Exception\<close>, the class the last handler of \<^verbatim>\<open>process\<close> catches; the
  exits that derive from \<^verbatim>\<open>BaseException\<close> only (a keyboard interrupt, a
  \<^verbatim>\<open>SystemExit\<close>) are no errors of the pipeline: they come with the type
  \<open>signal\<close>, in the section on \<open>process_full\<close>.
  \<open>OSError\<close> stands for the errors of \<^verbatim>\<open>open\<close> other than
  \<^verbatim>\<open>FileNotFoundError\<close> (permission denied, is a directory, ...).
\<close>

datatype exn =
    PipelineError string
  | KeyError string
  | TypeError string
  | ValueError string
  | IndexError string
  | AttributeError string
  | FileNotFoundError string
  | OSError string
  | RequestException string
  | JSONDecodeError string
  | ValidationError string
  | OtherException string

text \<open>A computation that may raise returns \<open>Inl\<close> of the exception.\<close>

definition and_then :: "exn + 'a \<Rightarrow> ('a \<Rightarrow> exn + 'b) \<Rightarrow> exn + 'b" where
  "and_then m f = (case m of Inl e \<Rightarrow> Inl e | Inr x \<Rightarrow> f x)"

definition is_TypeError :: "exn \<Rightarrow> bool" where
  "is_TypeError e = (case e of TypeError m \<Rightarrow> True | _ \<Rightarrow> False)"

definition is_PipelineError :: "exn \<Rightarrow> bool" where
  "is_PipelineError e = (case e of PipelineError m \<Rightarrow> True | _ \<Rightarrow> False)"

definition raises :: "(exn \<Rightarrow> bool) \<Rightarrow> exn + 'a \<Rightarrow> bool" where
  "raises cls r = (case r of Inl e \<Rightarrow> cls e | Inr x \<Rightarrow> False)"

definition returns :: "exn + 'a \<Rightarrow> bool" where
  "returns r = (case r of Inl e \<Rightarrow> False | Inr x \<Rightarrow> True)"

subsection \<open>Operations of Python on values\<close>

text \<open>\<^verbatim>\<open>bool(v)\<close>, as \<^verbatim>\<open>if v\<close> and \<^verbatim>\<open>v or d\<close> use it.\<close>

definition py_truthy :: "pyval \<Rightarrow> bool" where
  "py_truthy v =
     (case v of
        PNone \<Rightarrow> False
      | PBool b \<Rightarrow> b
      | PInt i \<Rightarrow> i \<noteq> 0
      | PFloat x \<Rightarrow> x \<noteq> 0
      | PStr s \<Rightarrow> s \<noteq> []
      | PList xs \<Rightarrow> xs \<noteq> []
      | PDict kvs \<Rightarrow> kvs \<noteq> [])"

text \<open>\<^verbatim>\<open>str(type(v))\<close>, as an f-string prints \<^verbatim>\<open>{type(v)}\<close>.\<close>

definition py_type_repr :: "pyval \<Rightarrow> string" where
  "py_type_repr v =
     (case v of
        PNone \<Rightarrow> ''<class 'NoneType'>''
      | PBool b \<Rightarrow> ''<class 'bool'>''
      | PInt i \<Rightarrow> ''<class 'int'>''
      | PFloat x \<Rightarrow> ''<class 'float'>''
      | PStr s \<Rightarrow> ''<class 'str'>''
      | PList xs \<Rightarrow> ''<class 'list'>''
      | PDict kvs \<Rightarrow> ''<class 'dict'>'')"

text \<open>
  \<^verbatim>\<open>str.isspace\<close> on ASCII: tab, line feed, vertical tab, form feed, carriage
  return, the four separators \<^verbatim>\<open>0x1c\<close>..\<^verbatim>\<open>0x1f\<close> and the space.
\<close>

definition is_space :: "char \<Rightarrow> bool" where
  "is_space c =
     (c \<in> set [CHR 0x09, CHR 0x0A, CHR 0x0B, CHR 0x0C, CHR 0x0D,
                CHR 0x1C, CHR 0x1D, CHR 0x1E, CHR 0x1F, CHR 0x20])"

text \<open>\<^verbatim>\<open>s.strip()\<close>: whitespace removed at both ends.\<close>

definition py_strip :: "string \<Rightarrow> string" where
  "py_strip s = rev (dropWhile is_space (rev (dropWhile is_space s)))"

definition lower_char :: "char \<Rightarrow> char" where
  "lower_char c =
     (case map_of (zip ''ABCDEFGHIJKLMNOPQRSTUVWXYZ'' ''abcdefghijklmnopqrstuvwxyz'') c of
        Some d \<Rightarrow> d
      | None \<Rightarrow> c)"

definition upper_char :: "char \<Rightarrow> char" where
  "upper_char c =
     (case map_of (zip ''abcdefghijklmnopqrstuvwxyz'' ''ABCDEFGHIJKLMNOPQRSTUVWXYZ'') c of
        Some d \<Rightarrow> d
      | None \<Rightarrow> c)"

text \<open>\<^verbatim>\<open>s.lower()\<close> and \<^verbatim>\<open>s.upper()\<close>.\<close>

definition py_lower :: "string \<Rightarrow> string" where
  "py_lower s = map lower_char s"

definition py_upper :: "string \<Rightarrow> string" where
  "py_upper s = map upper_char s"

text \<open>
  \<^verbatim>\<open>s.split()\<close>: the maximal runs of non-whitespace characters. The first argument
  is the word being read.
\<close>

fun split_ws :: "string \<Rightarrow> string \<Rightarrow> string list" where
  "split_ws w [] = (if w = [] then [] else [rev w])"
| "split_ws w (c # cs) =
     (if is_space c then (if w = [] then split_ws [] cs else rev w # split_ws [] cs)
      else split_ws (c # w) cs)"

definition py_split :: "string \<Rightarrow> string list" where
  "py_split s = split_ws [] s"

text \<open>\<^verbatim>\<open>str(n)\<close> of an integer, in decimal.\<close>

fun str_nat :: "nat \<Rightarrow> string" where
  "str_nat n =
     (if n < 10 then [''0123456789'' ! n]
      else str_nat (n div 10) @ [''0123456789'' ! (n mod 10)])"

declare str_nat.simps [simp del]

definition str_int :: "int \<Rightarrow> string" where
  "str_int i = (if i < 0 then CHR ''-'' # str_nat (nat (- i)) else str_nat (nat i))"

text \<open>The escapes of \<^verbatim>\<open>repr\<close> for one character, inside the quote \<open>q\<close>.\<close>

definition repr_hex :: "char \<Rightarrow> string" where
  "repr_hex c =
     [CHR 0x5C, CHR ''x'', ''0123456789abcdef'' ! (of_char c div 16),
      ''0123456789abcdef'' ! (of_char c mod 16)]"

definition repr_char :: "char \<Rightarrow> char \<Rightarrow> string" where
  "repr_char q c =
     (if c = q \<or> c = CHR 0x5C then [CHR 0x5C, c]
      else if c = CHR 0x09 then [CHR 0x5C, CHR ''t'']
      else if c = CHR 0x0A then [CHR 0x5C, CHR ''n'']
      else if c = CHR 0x0D then [CHR 0x5C, CHR ''r'']
      else if (of_char c :: nat) < 32 \<or> (of_char c :: nat) \<ge> 127 then repr_hex c
      else [c])"

text \<open>
  \<^verbatim>\<open>repr(s)\<close> of a string: in single quotes, unless the string has a single quote
  and no double quote.
\<close>

definition py_repr_str :: "string \<Rightarrow> string" where
  "py_repr_str s =
     (let q = (if CHR 0x27 \<in> set s \<and> CHR 0x22 \<notin> set s then CHR 0x22 else CHR 0x27)
      in q # concat (map (repr_char q) s) @ [q])"

text \<open>
  \<^verbatim>\<open>d[k]\<close> with a string key: \<^verbatim>\<open>KeyError\<close> on a dict without the key (its
  message is the \<^verbatim>\<open>repr\<close> of the key), \<^verbatim>\<open>TypeError\<close> on every value that is
  not a dict.
\<close>

definition getitem :: "pyval \<Rightarrow> string \<Rightarrow> exn + pyval" where
  "getitem d k =
     (case d of
        PDict kvs \<Rightarrow> (case map_of kvs k of Some v \<Rightarrow> Inr v | None \<Rightarrow> Inl (KeyError (py_repr_str k)))
      | _ \<Rightarrow> Inl (TypeError ''indices must be integers or slices, not str''))"

text \<open>
  \<^verbatim>\<open>d.get(k, default)\<close>: only a dict has the method; elsewhere the attribute
  lookup raises \<^verbatim>\<open>AttributeError\<close>.
\<close>

definition dict_get :: "pyval \<Rightarrow> string \<Rightarrow> pyval \<Rightarrow> exn + pyval" where
  "dict_get d k dflt =
     (case d of
        PDict kvs \<Rightarrow> (case map_of kvs k of Some v \<Rightarrow> Inr v | None \<Rightarrow> Inr dflt)
      | _ \<Rightarrow> Inl (AttributeError ''object has no attribute get''))"

section \<open>Configuration and the world outside the pipeline\<close>

text \<open>The dataclass \<^verbatim>\<open>PipelineConfig\<close>.\<close>

record PipelineConfig =
  llm_api_url :: string
  llm_api_key :: string
  model_name :: string
  timeout_seconds :: int
  max_retries :: int
  strip_input :: bool
  lowercase_input :: bool
  uppercase_output :: bool
  template_dir :: string
  default_template :: string
  validate_schemas :: bool
  collect_metrics :: bool
  metrics_port :: int
  expose_metrics :: bool

text \<open>The defaults of the dataclass, with no environment variable set.\<close>

definition default_config :: PipelineConfig where
  "default_config =
     \<lparr> llm_api_url = ''https://api.openai.com/v1/chat/completions'',
       llm_api_key = '''',
       model_name = ''gpt-3.5-turbo'',
       timeout_seconds = 10,
       max_retries = 3,
       strip_input = True,
       lowercase_input = True,
       uppercase_output = False,
       template_dir = ''prompt_templates'',
       default_template = ''default.txt'',
       validate_schemas = True,
       collect_metrics = True,
       metrics_port = 8000,
       expose_metrics = False \<rparr>"

text \<open>
  What \<^verbatim>\<open>requests.post\<close> hands back: the status code, the body as text, and
  what \<^verbatim>\<open>response.json()\<close> gives (the parsed body, or the exception it raises).
\<close>

record response =
  status_code :: int
  resp_text :: string
  json :: "exn + pyval"

text \<open>
  Everything the pipeline reads from outside itself is a field of the world:
  \<^item> \<open>path_of dir file\<close>: the path \<^verbatim>\<open>pathlib.Path(dir) / file\<close>, as text;
  \<^item> \<open>open_read path\<close>: \<^verbatim>\<open>open(path, 'r')\<close> followed by \<^verbatim>\<open>f.read()\<close>;
  \<^item> \<open>py_str v\<close>: \<^verbatim>\<open>format(v, '')\<close> of a value that is not a string;
  \<^item> \<open>str_format t kw\<close>: \<^verbatim>\<open>t.format(**kw)\<close> for a template that uses more of the
    format mini-language than text, doubled braces and plain named fields;
  \<^item> \<open>http_post k\<close>: the outcome of the \<open>k\<close>-th call of \<^verbatim>\<open>requests.post\<close>
    (counted from 0) during one call of \<^verbatim>\<open>run_inference\<close>;
  \<^item> \<open>time_time\<close>: the reading of \<^verbatim>\<open>time.time()\<close> that stamps the result;
  \<^item> \<open>PYDANTIC_AVAILABLE\<close>, \<open>PROMETHEUS_AVAILABLE\<close>: the module flags of
    \<^verbatim>\<open>validators.py\<close> and \<^verbatim>\<open>metrics.py\<close>;
  \<^item> \<open>pydantic_str\<close>, \<open>pydantic_float\<close>, \<open>pydantic_usage\<close>: pydantic's validation
    of a field declared \<^verbatim>\<open>str\<close>, \<^verbatim>\<open>float\<close> and
    \<^verbatim>\<open>Optional[Dict[str, int]]\<close> (\<open>None\<close>: the value is rejected);
  \<^item> \<open>counter_inc v\<close>: \<^verbatim>\<open>Counter.inc(v)\<close> of \<^verbatim>\<open>prometheus_client\<close>.
\<close>

record world =
  path_of :: "string \<Rightarrow> string \<Rightarrow> string"
  open_read :: "string \<Rightarrow> exn + string"
  py_str :: "pyval \<Rightarrow> string"
  str_format :: "string \<Rightarrow> (string \<times> pyval) list \<Rightarrow> exn + string"
  http_post :: "nat \<Rightarrow> exn + response"
  time_time :: pyval
  PYDANTIC_AVAILABLE :: bool
  PROMETHEUS_AVAILABLE :: bool
  pydantic_str :: "pyval \<Rightarrow> string option"
  pydantic_float :: "pyval \<Rightarrow> pyval option"
  pydantic_usage :: "pyval \<Rightarrow> pyval option"
  counter_inc :: "pyval \<Rightarrow> exn + unit"

section \<open>Stage 1: preprocess\_input\<close>

text \<open>
  \<^verbatim>\<open>preprocess_input(self, input_text, context)\<close>. A value that is not a
  \<^verbatim>\<open>str\<close> raises \<^verbatim>\<open>PipelineError\<close>; a string is stripped and lowercased as
  the configuration says, in this order. (The timing decorator around each stage
  logs the time the call took and hands on its result or its exception; it is left
  out.)
\<close>

definition preprocess_input :: "PipelineConfig \<Rightarrow> pyval \<Rightarrow> pyval \<Rightarrow> exn + pyval" where
  "preprocess_input cfg input_text context =
     (case input_text of
        PStr s \<Rightarrow>
          (let processed_input = s;
               processed_input =
                 (if strip_input cfg then py_strip processed_input else processed_input);
               processed_input =
                 (if lowercase_input cfg then py_lower processed_input else processed_input)
           in Inr (PDict [(''input'', PStr processed_input), (''context'', context)]))
      | _ \<Rightarrow> Inl (PipelineError (''Input must be a string, got '' @ py_type_repr input_text)))"

section \<open>Stage 4: postprocess\_output\<close>

text \<open>
  \<^verbatim>\<open>postprocess_output(self, inference_result, context)\<close>. The content defaults
  to the empty string and the usage to the empty dict; a content that is not a string
  raises \<^verbatim>\<open>PipelineError\<close>.
\<close>

definition postprocess_output :: "PipelineConfig \<Rightarrow> world \<Rightarrow> pyval \<Rightarrow> pyval \<Rightarrow> exn + pyval" where
  "postprocess_output cfg w inference_result context =
     and_then (dict_get inference_result ''content'' (PStr [])) (\<lambda>output.
     and_then (dict_get inference_result ''usage'' (PDict [])) (\<lambda>usage.
       (case output of
          PStr s \<Rightarrow>
            (let processed_output = (if uppercase_output cfg then py_upper s else s)
             in Inr (PDict [(''final_output'', PStr processed_output),
                            (''context_used'', context),
                            (''timestamp'', time_time w),
                            (''token_usage'', if py_truthy usage then usage else PNone)]))
        | _ \<Rightarrow> Inl (PipelineError (''Output must be a string, got '' @ py_type_repr output)))))"

section \<open>Stage 2: template loading and compose\_prompt\<close>

datatype log_level = DEBUG | INFO | WARNING | ERROR

definition fallback_template :: string where
  "fallback_template = ''User: {user_input}\<newline>Context: {context}\<newline>Response:''"

text \<open>
  \<^verbatim>\<open>_load_template(self, template_name)\<close>, with the records it logs. The name
  defaults to the configured one when it is \<^verbatim>\<open>None\<close> or empty. Only
  \<^verbatim>\<open>FileNotFoundError\<close> is handled: it logs a warning and gives the fallback;
  any other error of \<^verbatim>\<open>open\<close> or \<^verbatim>\<open>read\<close> leaves the method.
\<close>

definition load_template ::
  "PipelineConfig \<Rightarrow> world \<Rightarrow> string option \<Rightarrow> (exn + string) \<times> (log_level \<times> string) list" where
  "load_template cfg w template_name =
     (let template_file =
            (case template_name of
               Some n \<Rightarrow> if n \<noteq> [] then n else default_template cfg
             | None \<Rightarrow> default_template cfg);
          template_path = path_of w (template_dir cfg) template_file
      in case open_read w template_path of
           Inr s \<Rightarrow> (Inr s, [])
         | Inl (FileNotFoundError m) \<Rightarrow>
             (Inr fallback_template,
              [(WARNING, ''Template file not found: '' @ template_path @
                         '', using fallback template'')])
         | Inl e \<Rightarrow> (Inl e, []))"

text \<open>
  \<^verbatim>\<open>template.format(user_input=..., context=...)\<close>. The model reads the templates
  made of text without braces, the doubled braces \<^verbatim>\<open>{{\<close> and \<^verbatim>\<open>}}\<close>, and
  replacement fields \<^verbatim>\<open>{name}\<close> whose name is a plain keyword: not empty, not a
  number, and free of the characters that start an attribute, an index, a conversion
  or a format specification. For such a template every field is looked up among the
  keyword arguments, and a name that is missing raises \<^verbatim>\<open>KeyError\<close>. For any
  other template the result is the world's \<open>str_format\<close>.
\<close>

datatype piece = Lit char | Field string

definition plain_name :: "string \<Rightarrow> bool" where
  "plain_name f =
     (f \<noteq> [] \<and> list_all (\<lambda>c. c \<notin> set ''{}[].!:'') f
      \<and> \<not> list_all (\<lambda>c. c \<in> set ''0123456789'') f)"

text \<open>
  The scanner: the first argument is \<open>None\<close> in text and \<open>Some acc\<close> inside a
  field, \<open>acc\<close> being the field read so far, reversed. \<open>None\<close> as a result: the
  template is outside the fragment.
\<close>

fun parse_template :: "string option \<Rightarrow> string \<Rightarrow> piece list option" where
  "parse_template None [] = Some []"
| "parse_template (Some acc) [] = None"
| "parse_template None (c # cs) =
     (if c = CHR ''{'' then
        (case cs of
           [] \<Rightarrow> None
         | d # ds \<Rightarrow>
             if d = CHR ''{'' then map_option (Cons (Lit c)) (parse_template None ds)
             else parse_template (Some []) cs)
      else if c = CHR ''}'' then
        (case cs of
           [] \<Rightarrow> None
         | d # ds \<Rightarrow>
             if d = CHR ''}'' then map_option (Cons (Lit c)) (parse_template None ds)
             else None)
      else map_option (Cons (Lit c)) (parse_template None cs))"
| "parse_template (Some acc) (c # cs) =
     (if c = CHR ''}'' then
        (if plain_name (rev acc)
         then map_option (Cons (Field (rev acc))) (parse_template None cs)
         else None)
      else parse_template (Some (c # acc)) cs)"

definition format_value :: "world \<Rightarrow> pyval \<Rightarrow> string" where
  "format_value w v = (case v of PStr s \<Rightarrow> s | _ \<Rightarrow> py_str w v)"

fun render :: "world \<Rightarrow> (string \<times> pyval) list \<Rightarrow> piece list \<Rightarrow> exn + string" where
  "render w kw [] = Inr []"
| "render w kw (Lit c # ps) = and_then (render w kw ps) (\<lambda>r. Inr (c # r))"
| "render w kw (Field f # ps) =
     (case map_of kw f of
        None \<Rightarrow> Inl (KeyError (py_repr_str f))
      | Some v \<Rightarrow> and_then (render w kw ps) (\<lambda>r. Inr (format_value w v @ r)))"

definition py_format :: "world \<Rightarrow> string \<Rightarrow> (string \<times> pyval) list \<Rightarrow> exn + string" where
  "py_format w template kw =
     (case parse_template None template of
        Some ps \<Rightarrow> render w kw ps
      | None \<Rightarrow> str_format w template kw)"

text \<open>
  \<^verbatim>\<open>compose_prompt(self, preprocessed_data, template_name)\<close>. Both keys are read
  before the template is loaded. Every \<^verbatim>\<open>KeyError\<close> of the body, from a missing
  key as from a field of the template that is neither \<^verbatim>\<open>user_input\<close> nor
  \<^verbatim>\<open>context\<close>, becomes a \<^verbatim>\<open>PipelineError\<close>; the message of a
  \<^verbatim>\<open>KeyError\<close> is the \<^verbatim>\<open>repr\<close> of the key.
\<close>

definition compose_prompt ::
  "PipelineConfig \<Rightarrow> world \<Rightarrow> pyval \<Rightarrow> string option \<Rightarrow> exn + string" where
  "compose_prompt cfg w preprocessed_data template_name =
     (case and_then (getitem preprocessed_data ''input'') (\<lambda>user_input.
           and_then (getitem preprocessed_data ''context'') (\<lambda>context.
           and_then (fst (load_template cfg w template_name)) (\<lambda>template.
             py_format w template [(''user_input'', user_input), (''context'', context)]))) of
        Inl (KeyError k) \<Rightarrow>
          Inl (PipelineError (''Missing required key in preprocessed data: '' @ k))
      | r \<Rightarrow> r)"

section \<open>Stage 3: run\_inference\<close>

text \<open>
  \<^verbatim>\<open>MetricsCollector.record_token_usage\<close>; the collector is enabled when the
  configuration collects metrics.
\<close>

definition record_token_usage :: "PipelineConfig \<Rightarrow> world \<Rightarrow> pyval \<Rightarrow> exn + unit" where
  "record_token_usage cfg w usage_data =
     (if \<not> collect_metrics cfg \<or> \<not> PROMETHEUS_AVAILABLE w then Inr ()
      else
        and_then (dict_get usage_data ''prompt_tokens'' (PInt 0)) (\<lambda>prompt_tokens.
        and_then (dict_get usage_data ''completion_tokens'' (PInt 0)) (\<lambda>completion_tokens.
        and_then (dict_get usage_data ''total_tokens'' (PInt 0)) (\<lambda>total_tokens.
        and_then (counter_inc w prompt_tokens) (\<lambda>u1.
        and_then (counter_inc w completion_tokens) (\<lambda>u2.
          counter_inc w total_tokens))))))"

text \<open>\<^verbatim>\<open>v[0]\<close>.\<close>

definition getitem0 :: "pyval \<Rightarrow> exn + pyval" where
  "getitem0 v =
     (case v of
        PList xs \<Rightarrow> (case xs of [] \<Rightarrow> Inl (IndexError ''list index out of range'') | x # r \<Rightarrow> Inr x)
      | PStr s \<Rightarrow> (case s of [] \<Rightarrow> Inl (IndexError ''string index out of range'') | c # r \<Rightarrow> Inr (PStr [c]))
      | PDict kvs \<Rightarrow> Inl (KeyError ''0'')
      | _ \<Rightarrow> Inl (TypeError ''object is not subscriptable''))"

definition has_key :: "pyval \<Rightarrow> string \<Rightarrow> bool" where
  "has_key d k = (case d of PDict kvs \<Rightarrow> map_of kvs k \<noteq> None | _ \<Rightarrow> False)"

text \<open>
  The branch of status 200, from the parsed body on: the content of the first choice,
  the metrics, the returned dict.
\<close>

definition on_success :: "PipelineConfig \<Rightarrow> world \<Rightarrow> pyval \<Rightarrow> exn + pyval" where
  "on_success cfg w result =
     and_then (getitem result ''choices'') (\<lambda>choices.
     and_then (getitem0 choices) (\<lambda>choice.
     and_then (getitem choice ''message'') (\<lambda>message.
     and_then (getitem message ''content'') (\<lambda>content.
     and_then (if collect_metrics cfg \<and> has_key result ''usage''
               then and_then (getitem result ''usage'') (record_token_usage cfg w)
               else Inr ()) (\<lambda>u.
     and_then (dict_get result ''usage'' (PDict [])) (\<lambda>usage.
       Inr (PDict [(''content'', content), (''usage'', usage)])))))))"

text \<open>
  The body of the \<^verbatim>\<open>try\<close> of one attempt: \<open>Inr (Some r)\<close> when it returns
  \<open>r\<close>, \<open>Inr None\<close> when it falls through (a status other than 200, logged),
  \<open>Inl e\<close> when it raises.
\<close>

definition attempt_body :: "PipelineConfig \<Rightarrow> world \<Rightarrow> nat \<Rightarrow> exn + pyval option" where
  "attempt_body cfg w attempt =
     and_then (http_post w attempt) (\<lambda>response.
       if status_code response = 200
       then and_then (json response) (\<lambda>result.
            and_then (on_success cfg w result) (\<lambda>r. Inr (Some r)))
       else Inr None)"

text \<open>\<^verbatim>\<open>except (requests.RequestException, json.JSONDecodeError)\<close>.\<close>

definition transport_error :: "exn \<Rightarrow> bool" where
  "transport_error e =
     (case e of RequestException m \<Rightarrow> True | JSONDecodeError m \<Rightarrow> True | _ \<Rightarrow> False)"

text \<open>
  What a call of \<^verbatim>\<open>run_inference\<close> does besides returning: the seconds of each
  \<^verbatim>\<open>time.sleep\<close>, in order, and the number of calls of \<^verbatim>\<open>requests.post\<close>.
\<close>

record effects =
  sleeps :: "nat list"
  requests :: nat

definition no_effects :: effects where
  "no_effects = \<lparr> sleeps = [], requests = 0 \<rparr>"

definition after_request :: "nat list \<Rightarrow> (exn + pyval) \<times> effects \<Rightarrow> (exn + pyval) \<times> effects" where
  "after_request ss rt =
     (fst rt, \<lparr> sleeps = ss @ sleeps (snd rt), requests = Suc (requests (snd rt)) \<rparr>)"

text \<open>
  The loop \<^verbatim>\<open>for attempt in range(self.config.max_retries)\<close> over the attempts
  still to make, and the \<^verbatim>\<open>raise\<close> after it.
\<close>

fun inference_loop :: "PipelineConfig \<Rightarrow> world \<Rightarrow> nat list \<Rightarrow> (exn + pyval) \<times> effects" where
  "inference_loop cfg w [] = (Inl (PipelineError ''Inference failed''), no_effects)"
| "inference_loop cfg w (attempt # rest) =
     (case attempt_body cfg w attempt of
        Inr (Some r) \<Rightarrow> (Inr r, \<lparr> sleeps = [], requests = 1 \<rparr>)
      | Inr None \<Rightarrow> after_request [] (inference_loop cfg w rest)
      | Inl e \<Rightarrow>
          if transport_error e then
            (if int attempt = max_retries cfg - 1
             then (Inl (PipelineError (''Failed to get response after '' @
                          str_int (max_retries cfg) @ '' attempts'')),
                   \<lparr> sleeps = [], requests = 1 \<rparr>)
             else after_request [2 ^ attempt] (inference_loop cfg w rest))
          else (Inl e, \<lparr> sleeps = [], requests = 1 \<rparr>))"

text \<open>\<^verbatim>\<open>run_inference(self, prompt)\<close>, with its effects.\<close>

definition mock_result :: "string \<Rightarrow> pyval" where
  "mock_result prompt =
     PDict [(''content'', PStr (''[Development Mode] Mock response for: '' @ take 50 prompt @ ''...'')),
            (''usage'', PDict [(''prompt_tokens'', PInt (int (length (py_split prompt)))),
                              (''completion_tokens'', PInt 10),
                              (''total_tokens'', PInt (int (length (py_split prompt)) + 10))])]"

definition run_inference :: "PipelineConfig \<Rightarrow> world \<Rightarrow> string \<Rightarrow> (exn + pyval) \<times> effects" where
  "run_inference cfg w prompt =
     (if prompt = [] then (Inl (PipelineError ''Cannot run inference with empty prompt''), no_effects)
      else if llm_api_key cfg = [] then (Inr (mock_result prompt), no_effects)
      else inference_loop cfg w [0..<nat (max_retries cfg)])"

section \<open>Validation\<close>

text \<open>
  \<^verbatim>\<open>validate_input\<close> and \<^verbatim>\<open>validate_output\<close> of \<^verbatim>\<open>validators.py\<close>: the
  identity without pydantic; with it, the model is built from the dict (which fails
  on a missing or ill-typed field and on a text that is empty once stripped) and
  turned back into a dict of exactly its fields.
\<close>

definition validate_input :: "world \<Rightarrow> pyval \<Rightarrow> exn + pyval" where
  "validate_input w input_data =
     (if \<not> PYDANTIC_AVAILABLE w then Inr input_data
      else
        (case input_data of
           PDict kvs \<Rightarrow>
             (case map_of kvs ''input_text'' of
                None \<Rightarrow> Inl (ValidationError ''input_text: field required'')
              | Some v \<Rightarrow>
                  (case pydantic_str w v of
                     None \<Rightarrow> Inl (ValidationError ''input_text: str type expected'')
                   | Some s \<Rightarrow>
                       if py_strip s = [] then Inl (ValidationError ''input_text cannot be empty'')
                       else Inr (PDict [(''input_text'', PStr s),
                                        (''context'', case map_of kvs ''context'' of
                                                        Some c \<Rightarrow> c | None \<Rightarrow> PNone)])))
         | _ \<Rightarrow> Inl (TypeError ''argument after ** must be a mapping'')))"

definition validate_output :: "world \<Rightarrow> pyval \<Rightarrow> exn + pyval" where
  "validate_output w output_data =
     (if \<not> PYDANTIC_AVAILABLE w then Inr output_data
      else
        (case output_data of
           PDict kvs \<Rightarrow>
             (case map_of kvs ''final_output'' of
                None \<Rightarrow> Inl (ValidationError ''final_output: field required'')
              | Some v \<Rightarrow>
                  (case pydantic_str w v of
                     None \<Rightarrow> Inl (ValidationError ''final_output: str type expected'')
                   | Some s \<Rightarrow>
                       if py_strip s = [] then Inl (ValidationError ''final_output cannot be empty'')
                       else
                         (case map_of kvs ''timestamp'' of
                            None \<Rightarrow> Inl (ValidationError ''timestamp: field required'')
                          | Some t \<Rightarrow>
                              (case pydantic_float w t of
                                 None \<Rightarrow> Inl (ValidationError ''timestamp: value is not a valid float'')
                               | Some t' \<Rightarrow>
                                   (case (case map_of kvs ''token_usage'' of
                                            None \<Rightarrow> Some PNone
                                          | Some PNone \<Rightarrow> Some PNone
                                          | Some u \<Rightarrow> pydantic_usage w u) of
                                      None \<Rightarrow> Inl (ValidationError ''token_usage: value is not a valid dict'')
                                    | Some u' \<Rightarrow>
                                        Inr (PDict [(''final_output'', PStr s),
                                                    (''context_used'',
                                                       case map_of kvs ''context_used'' of
                                                         Some c \<Rightarrow> c | None \<Rightarrow> PNone),
                                                    (''timestamp'', t'),
                                                    (''token_usage'', u')]))))))
         | _ \<Rightarrow> Inl (TypeError ''argument after ** must be a mapping'')))"

section \<open>The orchestrator: process\<close>

text \<open>
  A hook is a callable from a value to a value, which may raise. The hooks run in
  the order of their registration, each on the result of the one before. (A hook that
  exits, or that changes in place an object the caller passed, is an
  \<open>effect_hook\<close> of the section on \<open>process_full\<close>.)
\<close>

type_synonym hook = "pyval \<Rightarrow> exn + pyval"

fun run_hooks :: "hook list \<Rightarrow> pyval \<Rightarrow> exn + pyval" where
  "run_hooks [] d = Inr d"
| "run_hooks (h # hs) d = and_then (h d) (run_hooks hs)"

text \<open>
  \<^verbatim>\<open>v[:50]\<close>, which the log line before the stages takes of the input text: a
  string and a list have slices, the other values raise (a dict raises
  \<^verbatim>\<open>TypeError\<close> or, in recent versions of Python, \<^verbatim>\<open>KeyError\<close>; neither is
  a \<^verbatim>\<open>PipelineError\<close>, and \<^verbatim>\<open>process\<close> treats both alike).
\<close>

definition slice50 :: "pyval \<Rightarrow> exn + pyval" where
  "slice50 v =
     (case v of
        PStr s \<Rightarrow> Inr (PStr (take 50 s))
      | PList xs \<Rightarrow> Inr (PList (take 50 xs))
      | _ \<Rightarrow> Inl (TypeError ''object is not subscriptable''))"

text \<open>
  The log line of the token usage: when the result has a truthy \<^verbatim>\<open>token_usage\<close>,
  its \<^verbatim>\<open>get\<close> method is called three times.
\<close>

definition log_token_usage :: "pyval \<Rightarrow> exn + unit" where
  "log_token_usage result =
     (if has_key result ''token_usage'' then
        and_then (getitem result ''token_usage'') (\<lambda>u.
          if py_truthy u then
            and_then (dict_get u ''total_tokens'' (PInt 0)) (\<lambda>a.
            and_then (dict_get u ''prompt_tokens'' (PInt 0)) (\<lambda>b.
            and_then (dict_get u ''completion_tokens'' (PInt 0)) (\<lambda>c. Inr ())))
          else Inr ())
      else Inr ())"

text \<open>The body of the \<^verbatim>\<open>try\<close> of \<^verbatim>\<open>process\<close>.\<close>

definition process_body ::
  "PipelineConfig \<Rightarrow> world \<Rightarrow> hook list \<Rightarrow> hook list \<Rightarrow> pyval \<Rightarrow> pyval \<Rightarrow> string option
     \<Rightarrow> exn + pyval" where
  "process_body cfg w pre_hooks post_hooks input_text context template_name =
     and_then (run_hooks pre_hooks (PDict [(''input_text'', input_text), (''context'', context)]))
       (\<lambda>input_data.
     and_then (if validate_schemas cfg then validate_input w input_data else Inr input_data)
       (\<lambda>input_data.
     and_then (getitem input_data ''input_text'') (\<lambda>text_in.
     and_then (slice50 text_in) (\<lambda>shown.
     and_then (getitem input_data ''context'') (\<lambda>ctx.
     and_then (preprocess_input cfg text_in ctx) (\<lambda>preprocessed.
     and_then (compose_prompt cfg w preprocessed template_name) (\<lambda>prompt.
     and_then (fst (run_inference cfg w prompt)) (\<lambda>inference_result.
     and_then (postprocess_output cfg w inference_result ctx) (\<lambda>result.
     and_then (log_token_usage result) (\<lambda>u.
     and_then (if validate_schemas cfg then validate_output w result else Inr result)
       (\<lambda>result.
     run_hooks post_hooks result)))))))))))"

text \<open>
  \<^verbatim>\<open>process(self, input_text, context, template_name)\<close>: the body, and the two
  handlers. A \<^verbatim>\<open>PipelineError\<close> gives the envelope with its message, the
  arguments \<^verbatim>\<open>input_text\<close> and \<^verbatim>\<open>context\<close> of the call and the status; any
  other exception gives the envelope with a fixed message and the status.
\<close>

definition process ::
  "PipelineConfig \<Rightarrow> world \<Rightarrow> hook list \<Rightarrow> hook list \<Rightarrow> pyval \<Rightarrow> pyval \<Rightarrow> string option
     \<Rightarrow> exn + pyval" where
  "process cfg w pre_hooks post_hooks input_text context template_name =
     (case process_body cfg w pre_hooks post_hooks input_text context template_name of
        Inr result \<Rightarrow> Inr result
      | Inl (PipelineError m) \<Rightarrow>
          Inr (PDict [(''error'', PStr m),
                      (''input'', input_text),
                      (''context'', context),
                      (''status'', PStr ''failed'')])
      | Inl e \<Rightarrow>
          Inr (PDict [(''error'', PStr ''Internal pipeline error''),
                      (''status'', PStr ''failed'')]))"

section \<open>The orchestrator, with exits and objects changed in place\<close>

text \<open>
  Two things a hook can do are beyond a function from a value to a value or an error
  of class \<^verbatim>\<open>Exception\<close>: it can raise an exit that derives from
  \<^verbatim>\<open>BaseException\<close> only, which \<^verbatim>\<open>except Exception\<close> does not catch; and it can
  change in place the objects the caller passed as \<^verbatim>\<open>input_text\<close> and
  \<^verbatim>\<open>context\<close>, which the failure envelope holds by reference. This section
  models \<^verbatim>\<open>process\<close> once more, with both.

  What is raised is a signal: an exception of class \<^verbatim>\<open>Exception\<close>, or one of the
  exits.
\<close>

datatype signal = Error exn | SystemExit string | KeyboardInterrupt

text \<open>
  A hook takes the value it is called with and the present contents of the caller's
  two objects (the one passed as \<^verbatim>\<open>input_text\<close>, the one passed as
  \<^verbatim>\<open>context\<close>); it gives what it returns or raises, and the contents it leaves
  the two objects with.
\<close>

type_synonym effect_hook = "pyval \<Rightarrow> pyval \<times> pyval \<Rightarrow> (signal + pyval) \<times> (pyval \<times> pyval)"

fun run_effect_hooks ::
  "effect_hook list \<Rightarrow> pyval \<Rightarrow> pyval \<times> pyval \<Rightarrow> (signal + pyval) \<times> (pyval \<times> pyval)" where
  "run_effect_hooks [] d objs = (Inr d, objs)"
| "run_effect_hooks (h # hs) d objs =
     (case h d objs of
        (Inl s, objs') \<Rightarrow> (Inl s, objs')
      | (Inr d', objs') \<Rightarrow> run_effect_hooks hs d' objs')"

text \<open>
  The lines of \<^verbatim>\<open>process\<close> between the pre-hooks and the post-hooks: the
  validation of the input, the log line, the four stages, the log line of the usage
  and the validation of the output. They raise errors of class \<^verbatim>\<open>Exception\<close>
  only and change no object.
\<close>

definition stages_of_process ::
  "PipelineConfig \<Rightarrow> world \<Rightarrow> pyval \<Rightarrow> string option \<Rightarrow> exn + pyval" where
  "stages_of_process cfg w input_data template_name =
     and_then (if validate_schemas cfg then validate_input w input_data else Inr input_data)
       (\<lambda>input_data.
     and_then (getitem input_data ''input_text'') (\<lambda>text_in.
     and_then (slice50 text_in) (\<lambda>shown.
     and_then (getitem input_data ''context'') (\<lambda>ctx.
     and_then (preprocess_input cfg text_in ctx) (\<lambda>preprocessed.
     and_then (compose_prompt cfg w preprocessed template_name) (\<lambda>prompt.
     and_then (fst (run_inference cfg w prompt)) (\<lambda>inference_result.
     and_then (postprocess_output cfg w inference_result ctx) (\<lambda>result.
     and_then (log_token_usage result) (\<lambda>u.
       (if validate_schemas cfg then validate_output w result else Inr result))))))))))"

text \<open>
  The body of the \<^verbatim>\<open>try\<close>, with the contents of the caller's objects when it
  ends.
\<close>

definition process_full_body ::
  "PipelineConfig \<Rightarrow> world \<Rightarrow> effect_hook list \<Rightarrow> effect_hook list \<Rightarrow> pyval \<Rightarrow> pyval
     \<Rightarrow> string option \<Rightarrow> (signal + pyval) \<times> (pyval \<times> pyval)" where
  "process_full_body cfg w pre_hooks post_hooks input_text context template_name =
     (case run_effect_hooks pre_hooks
             (PDict [(''input_text'', input_text), (''context'', context)])
             (input_text, context) of
        (Inl s, objs) \<Rightarrow> (Inl s, objs)
      | (Inr input_data, objs) \<Rightarrow>
          (case stages_of_process cfg w input_data template_name of
             Inl e \<Rightarrow> (Inl (Error e), objs)
           | Inr result \<Rightarrow> run_effect_hooks post_hooks result objs))"

text \<open>
  The two handlers: \<^verbatim>\<open>except PipelineError\<close> builds the envelope from the message
  and from the variables \<^verbatim>\<open>input_text\<close> and \<^verbatim>\<open>context\<close>, that is, from the
  caller's objects as they now are; \<^verbatim>\<open>except Exception\<close> builds the envelope of
  an internal error; an exit passes both.
\<close>

fun process_handlers :: "signal \<Rightarrow> pyval \<times> pyval \<Rightarrow> signal + pyval" where
  "process_handlers (Error (PipelineError m)) objs =
     Inr (PDict [(''error'', PStr m),
                 (''input'', fst objs),
                 (''context'', snd objs),
                 (''status'', PStr ''failed'')])"
| "process_handlers (Error e) objs =
     Inr (PDict [(''error'', PStr ''Internal pipeline error''),
                 (''status'', PStr ''failed'')])"
| "process_handlers s objs = Inl s"

definition process_full ::
  "PipelineConfig \<Rightarrow> world \<Rightarrow> effect_hook list \<Rightarrow> effect_hook list \<Rightarrow> pyval \<Rightarrow> pyval
     \<Rightarrow> string option \<Rightarrow> signal + pyval" where
  "process_full cfg w pre_hooks post_hooks input_text context template_name =
     (case process_full_body cfg w pre_hooks post_hooks input_text context template_name of
        (Inr result, objs) \<Rightarrow> Inr result
      | (Inl s, objs) \<Rightarrow> process_handlers s objs)"

text \<open>
  A hook of the first model as a hook of this one: it raises no exit and leaves the
  caller's objects as they are. On such hooks the two models agree (lemma
  \<open>process_full_pure\<close> below).
\<close>

definition pure_hook :: "hook \<Rightarrow> effect_hook" where
  "pure_hook h d objs = (case h d of Inl e \<Rightarrow> (Inl (Error e), objs) | Inr v \<Rightarrow> (Inr v, objs))"

section \<open>Notions the properties are stated with\<close>

definition is_str :: "pyval \<Rightarrow> bool" where
  "is_str v = (case v of PStr s \<Rightarrow> True | _ \<Rightarrow> False)"

text \<open>
  The two shapes of an envelope: the success fields, and the failure fields with the
  status \<^verbatim>\<open>"failed"\<close>.
\<close>

definition success_shaped :: "pyval \<Rightarrow> bool" where
  "success_shaped r =
     (has_key r ''final_output'' \<and> has_key r ''context_used'' \<and>
      has_key r ''timestamp'' \<and> has_key r ''token_usage'')"

definition failure_shaped :: "pyval \<Rightarrow> bool" where
  "failure_shaped r = (has_key r ''error'' \<and> getitem r ''status'' = Inr (PStr ''failed''))"

definition exactly_one_shape :: "pyval \<Rightarrow> bool" where
  "exactly_one_shape r = (success_shaped r \<noteq> failure_shaped r)"

definition success_only :: "pyval \<Rightarrow> bool" where
  "success_only r = (success_shaped r \<and> \<not> failure_shaped r)"

text \<open>A post-hook keeps the success shape when it maps such envelopes to such envelopes.\<close>

definition keeps_success :: "hook \<Rightarrow> bool" where
  "keeps_success h = (\<forall>r r'. success_only r \<and> h r = Inr r' \<longrightarrow> success_only r')"


text \<open>The \<open>k\<close>-th request is answered with a status other than 200.\<close>

definition non_200 :: "world \<Rightarrow> nat \<Rightarrow> bool" where
  "non_200 w k = (case http_post w k of Inl e \<Rightarrow> False | Inr r \<Rightarrow> status_code r \<noteq> 200)"



text \<open>
  Templates written as a sequence of segments: text, and the two placeholders.
  \<open>template_of\<close> is the text of the template, \<open>filled\<close> the prompt expected from it.
\<close>

datatype seg = Text string | UserInput | Context

fun seg_source :: "seg \<Rightarrow> string" where
  "seg_source (Text t) = t"
| "seg_source UserInput = ''{user_input}''"
| "seg_source Context = ''{context}''"

definition template_of :: "seg list \<Rightarrow> string" where
  "template_of segs = concat (map seg_source segs)"

fun seg_filled :: "world \<Rightarrow> pyval \<Rightarrow> pyval \<Rightarrow> seg \<Rightarrow> string" where
  "seg_filled w u c (Text t) = t"
| "seg_filled w u c UserInput = format_value w u"
| "seg_filled w u c Context = format_value w c"

definition filled :: "world \<Rightarrow> pyval \<Rightarrow> pyval \<Rightarrow> seg list \<Rightarrow> string" where
  "filled w u c segs = concat (map (seg_filled w u c) segs)"

definition brace_free :: "string \<Rightarrow> bool" where
  "brace_free t = list_all (\<lambda>c. c \<noteq> CHR ''{'' \<and> c \<noteq> CHR ''}'') t"

fun plain_seg :: "seg \<Rightarrow> bool" where
  "plain_seg (Text t) = brace_free t"
| "plain_seg UserInput = True"
| "plain_seg Context = True"

text \<open>
  The steps of \<^verbatim>\<open>process\<close> before the first stage: the pre-hooks, the validation
  of the input, and the reading of the text (with the slice the log line takes of it)
  and of the context that the stages receive.
\<close>

definition stage_inputs ::
  "PipelineConfig \<Rightarrow> world \<Rightarrow> hook list \<Rightarrow> pyval \<Rightarrow> pyval \<Rightarrow> exn + pyval \<times> pyval" where
  "stage_inputs cfg w pre_hooks input_text context =
     and_then (run_hooks pre_hooks (PDict [(''input_text'', input_text), (''context'', context)]))
       (\<lambda>input_data.
     and_then (if validate_schemas cfg then validate_input w input_data else Inr input_data)
       (\<lambda>input_data.
     and_then (getitem input_data ''input_text'') (\<lambda>text_in.
     and_then (slice50 text_in) (\<lambda>shown.
     and_then (getitem input_data ''context'') (\<lambda>ctx. Inr (text_in, ctx))))))"

text \<open>The envelope of a classified failure, and the one of any other failure.\<close>

definition failure_envelope :: "string \<Rightarrow> pyval \<Rightarrow> pyval \<Rightarrow> pyval" where
  "failure_envelope m input_text context =
     PDict [(''error'', PStr m),
            (''input'', input_text),
            (''context'', context),
            (''status'', PStr ''failed'')]"

definition internal_error_envelope :: pyval where
  "internal_error_envelope =
     PDict [(''error'', PStr ''Internal pipeline error''), (''status'', PStr ''failed'')]"

text \<open>The pieces the scanner is to find in a template written as segments.\<close>

fun seg_pieces :: "seg \<Rightarrow> piece list" where
  "seg_pieces (Text t) = map Lit t"
| "seg_pieces UserInput = [Field ''user_input'']"
| "seg_pieces Context = [Field ''context'']"

text \<open>The path \<^verbatim>\<open>_load_template\<close> opens for a template name.\<close>

definition template_path_of :: "PipelineConfig \<Rightarrow> world \<Rightarrow> string option \<Rightarrow> string" where
  "template_path_of cfg w template_name =
     path_of w (template_dir cfg)
       (case template_name of
          Some n \<Rightarrow> if n \<noteq> [] then n else default_template cfg
        | None \<Rightarrow> default_template cfg)"

definition is_FileNotFoundError :: "exn \<Rightarrow> bool" where
  "is_FileNotFoundError e = (case e of FileNotFoundError m \<Rightarrow> True | _ \<Rightarrow> False)"

text \<open>What the properties of \<open>process_full\<close> speak of.\<close>

definition is_exit :: "signal \<Rightarrow> bool" where
  "is_exit s = (case s of Error e \<Rightarrow> False | _ \<Rightarrow> True)"




text \<open>A hook that leaves the caller's objects as they are.\<close>

definition mutation_free :: "effect_hook \<Rightarrow> bool" where
  "mutation_free h = (\<forall>d objs. snd (h d objs) = objs)"



subsection \<open>Sample worlds and hooks\<close>

text \<open>
  A world with no template file, no installed extras and an endpoint that cannot be
  reached.
\<close>

definition bare_world :: world where
  "bare_world =
     \<lparr> path_of = (\<lambda>dir file. dir @ ''/'' @ file),
       open_read = (\<lambda>path. Inl (FileNotFoundError path)),
       py_str = (\<lambda>v. ''None''),
       str_format = (\<lambda>t kw. Inl (ValueError ''unsupported format string'')),
       http_post = (\<lambda>k. Inl (RequestException ''connection refused'')),
       time_time = PFloat 0,
       PYDANTIC_AVAILABLE = False,
       PROMETHEUS_AVAILABLE = False,
       pydantic_str = (\<lambda>v. case v of PStr s \<Rightarrow> Some s | _ \<Rightarrow> None),
       pydantic_float = (\<lambda>v. case v of PFloat x \<Rightarrow> Some v | _ \<Rightarrow> None),
       pydantic_usage = (\<lambda>v. case v of PDict kvs \<Rightarrow> Some v | _ \<Rightarrow> None),
       counter_inc = (\<lambda>v. Inr ()) \<rparr>"

text \<open>The same world with the template directory unreadable.\<close>

definition locked_world :: world where
  "locked_world = bare_world \<lparr> open_read := (\<lambda>path. Inl (OSError ''Permission denied'')) \<rparr>"

text \<open>The same world with pydantic installed.\<close>

definition pydantic_world :: world where
  "pydantic_world = bare_world \<lparr> PYDANTIC_AVAILABLE := True \<rparr>"



text \<open>An endpoint that answers every request with status 400.\<close>

definition bad_request_world :: world where
  "bad_request_world =
     bare_world \<lparr> http_post :=
       (\<lambda>k. Inr \<lparr> status_code = 400, resp_text = ''Bad request'',
                  json = Inl (JSONDecodeError ''Expecting value'') \<rparr>) \<rparr>"



text \<open>A configuration with a credential.\<close>

definition keyed_config :: PipelineConfig where
  "keyed_config = default_config \<lparr> llm_api_key := ''test_key'' \<rparr>"

text \<open>
  Post-hooks: one that adds a field, as \<^verbatim>\<open>add_timestamp_hook\<close> of the examples
  does, and one that returns an empty dict.
\<close>

definition add_field_hook :: hook where
  "add_field_hook r =
     (case r of
        PDict kvs \<Rightarrow> Inr (PDict (kvs @ [(''processed_at'', PFloat 1)]))
      | _ \<Rightarrow> Inl (TypeError ''object does not support item assignment''))"

definition drop_all_hook :: hook where
  "drop_all_hook r = Inr (PDict [])"

text \<open>A post-hook that marks the result as failed and keeps its other fields.\<close>

definition mark_failed_hook :: hook where
  "mark_failed_hook r =
     (case r of
        PDict kvs \<Rightarrow> Inr (PDict ((''error'', PNone) # (''status'', PStr ''failed'') # kvs))
      | _ \<Rightarrow> Inl (TypeError ''object does not support item assignment''))"

text \<open>A pre-hook that raises.\<close>

definition failing_hook :: hook where
  "failing_hook d = Inl (ValueError ''bad input'')"




section \<open>Basic facts\<close>

lemma and_then_Inl [simp]: "and_then (Inl e) f = Inl e"
  by (simp add: and_then_def)

lemma and_then_Inr [simp]: "and_then (Inr x) f = f x"
  by (simp add: and_then_def)

lemma and_then_eq_Inr:
  "and_then m f = Inr y \<longleftrightarrow> (\<exists>x. m = Inr x \<and> f x = Inr y)"
  by (cases m) simp_all

lemma dict_get_PDict [simp]:
  "dict_get (PDict kvs) k d = Inr (case map_of kvs k of Some v \<Rightarrow> v | None \<Rightarrow> d)"
  by (simp add: dict_get_def split: option.splits)

lemma getitem_PDict [simp]:
  "getitem (PDict kvs) k =
     (case map_of kvs k of Some v \<Rightarrow> Inr v | None \<Rightarrow> Inl (KeyError (py_repr_str k)))"
  by (simp add: getitem_def)

lemma py_upper_Nil [simp]: "py_upper [] = []"
  by (simp add: py_upper_def)

section \<open>Stage 1: the properties of preprocess\_input\<close>

text \<open>
  Claim C6. For every input string and every context, \<open>preprocess_input\<close> returns
  the context unchanged and, with both flags set as in the default configuration,
  the input stripped and then lowercased. Each flag switches off its own transform
  only: with \<open>strip_input\<close> alone the input is stripped, with \<open>lowercase_input\<close>
  alone it is lowercased, with neither it is returned as it came.
\<close>

theorem preprocess_input_normalizes:
  "(strip_input cfg \<and> lowercase_input cfg \<longrightarrow>
      preprocess_input cfg (PStr s) ctx =
        Inr (PDict [(''input'', PStr (py_lower (py_strip s))), (''context'', ctx)]))
   \<and> (strip_input cfg \<and> \<not> lowercase_input cfg \<longrightarrow>
      preprocess_input cfg (PStr s) ctx =
        Inr (PDict [(''input'', PStr (py_strip s)), (''context'', ctx)]))
   \<and> (\<not> strip_input cfg \<and> lowercase_input cfg \<longrightarrow>
      preprocess_input cfg (PStr s) ctx =
        Inr (PDict [(''input'', PStr (py_lower s)), (''context'', ctx)]))
   \<and> (\<not> strip_input cfg \<and> \<not> lowercase_input cfg \<longrightarrow>
      preprocess_input cfg (PStr s) ctx =
        Inr (PDict [(''input'', PStr s), (''context'', ctx)]))
   \<and> strip_input default_config \<and> lowercase_input default_config"
  by (simp add: preprocess_input_def default_config_def)

text \<open>The four combinations of the flags on the input of the repository's test.\<close>

theorem preprocess_input_normalizes_witness:
  "preprocess_input default_config (PStr ''  TEST Input  '') (PStr ''test context'') =
     Inr (PDict [(''input'', PStr ''test input''), (''context'', PStr ''test context'')])
   \<and> preprocess_input (default_config \<lparr> lowercase_input := False \<rparr>)
        (PStr ''  TEST Input  '') PNone =
     Inr (PDict [(''input'', PStr ''TEST Input''), (''context'', PNone)])
   \<and> preprocess_input (default_config \<lparr> strip_input := False \<rparr>)
        (PStr ''  TEST Input  '') PNone =
     Inr (PDict [(''input'', PStr ''  test input  ''), (''context'', PNone)])
   \<and> preprocess_input (default_config \<lparr> strip_input := False, lowercase_input := False \<rparr>)
        (PStr ''  TEST Input  '') PNone =
     Inr (PDict [(''input'', PStr ''  TEST Input  ''), (''context'', PNone)])"
  using preprocess_input_normalizes
      [of default_config "''  TEST Input  ''" "PStr ''test context''"]
    preprocess_input_normalizes
      [of "default_config \<lparr> lowercase_input := False \<rparr>" "''  TEST Input  ''" PNone]
    preprocess_input_normalizes
      [of "default_config \<lparr> strip_input := False \<rparr>" "''  TEST Input  ''" PNone]
    preprocess_input_normalizes
      [of "default_config \<lparr> strip_input := False, lowercase_input := False \<rparr>"
          "''  TEST Input  ''" PNone]
  by (simp add: default_config_def py_strip_def py_lower_def lower_char_def is_space_def)

text \<open>
  Claim C9, as stated, fails: the error of a non-string input is not of class
  \<^verbatim>\<open>TypeError\<close>. On the integer 5 the method raises the \<^verbatim>\<open>PipelineError\<close> of
  its guard.
\<close>

theorem preprocess_input_not_TypeError:
  "\<not> raises is_TypeError (preprocess_input default_config (PInt 5) PNone)
   \<and> preprocess_input default_config (PInt 5) PNone =
       Inl (PipelineError ''Input must be a string, got <class 'int'>'')"
  by (simp add: preprocess_input_def raises_def is_TypeError_def py_type_repr_def)

text \<open>
  Claim C9, amended. For every value that is not a string, \<open>preprocess_input\<close>
  raises a \<^verbatim>\<open>PipelineError\<close> whose message names the type of the value; for a
  string, the context of any value is returned unchanged under the key
  \<^verbatim>\<open>context\<close>.
\<close>

theorem preprocess_input_rejects_non_string:
  "(\<not> is_str v \<longrightarrow>
      preprocess_input cfg v ctx =
        Inl (PipelineError (''Input must be a string, got '' @ py_type_repr v)))
   \<and> (is_str v \<longrightarrow>
      (\<exists>s. preprocess_input cfg v ctx = Inr (PDict [(''input'', PStr s), (''context'', ctx)])))"
  by (cases v) (simp_all add: preprocess_input_def is_str_def Let_def)

theorem preprocess_input_rejects_non_string_witness:
  "preprocess_input default_config (PList [PInt 1]) (PStr ''c'') =
     Inl (PipelineError ''Input must be a string, got <class 'list'>'')
   \<and> (\<exists>s. preprocess_input default_config (PStr ''Hi'')
             (PDict [(''audience'', PStr ''beginners'')]) =
        Inr (PDict [(''input'', PStr s),
                    (''context'', PDict [(''audience'', PStr ''beginners'')])]))"
  using preprocess_input_rejects_non_string
      [of "PList [PInt 1]" default_config "PStr ''c''"]
    preprocess_input_rejects_non_string
      [of "PStr ''Hi''" default_config "PDict [(''audience'', PStr ''beginners'')]"]
  by (simp add: is_str_def py_type_repr_def)

section \<open>Stage 4: the properties of postprocess\_output\<close>

text \<open>
  Claim C10. For every inference result that is a dict without the key
  \<^verbatim>\<open>content\<close>, \<open>postprocess_output\<close> does not raise: the content defaults to the
  empty string and the success envelope has an empty \<^verbatim>\<open>final_output\<close>. On a dict,
  the \<^verbatim>\<open>PipelineError\<close> of the output shape is raised exactly when the key is
  present with a value that is not a string.
\<close>

theorem postprocess_output_missing_content:
  "(map_of kvs ''content'' = None \<longrightarrow>
      postprocess_output cfg w (PDict kvs) ctx =
        Inr (PDict [(''final_output'', PStr []),
                    (''context_used'', ctx),
                    (''timestamp'', time_time w),
                    (''token_usage'',
                       case map_of kvs ''usage'' of
                         None \<Rightarrow> PNone
                       | Some u \<Rightarrow> if py_truthy u then u else PNone)]))
   \<and> (raises is_PipelineError (postprocess_output cfg w (PDict kvs) ctx) \<longleftrightarrow>
        (\<exists>v. map_of kvs ''content'' = Some v \<and> \<not> is_str v))"
  by (auto simp add: postprocess_output_def raises_def is_PipelineError_def is_str_def
        py_truthy_def
      split: option.splits pyval.splits)

theorem postprocess_output_missing_content_witness:
  "postprocess_output default_config bare_world
     (PDict [(''usage'', PDict [(''total_tokens'', PInt 7)])]) (PStr ''c'') =
     Inr (PDict [(''final_output'', PStr []),
                 (''context_used'', PStr ''c''),
                 (''timestamp'', PFloat 0),
                 (''token_usage'', PDict [(''total_tokens'', PInt 7)])])
   \<and> raises is_PipelineError
        (postprocess_output default_config bare_world (PDict [(''content'', PInt 3)]) PNone)"
  using postprocess_output_missing_content
      [of "[(''usage'', PDict [(''total_tokens'', PInt 7)])]" default_config bare_world
          "PStr ''c''"]
    postprocess_output_missing_content
      [of "[(''content'', PInt 3)]" default_config bare_world PNone]
  by (simp add: py_truthy_def bare_world_def is_str_def)

section \<open>Stage 3: run\_inference without a credential\<close>

text \<open>
  Claim C3, as stated, fails on the empty prompt: the guard on the prompt comes before
  the test of the credential, so with no credential configured \<open>run_inference\<close>
  raises.
\<close>

theorem run_inference_empty_prompt_raises:
  "llm_api_key default_config = []
   \<and> fst (run_inference default_config bare_world []) =
       Inl (PipelineError ''Cannot run inference with empty prompt'')
   \<and> \<not> returns (fst (run_inference default_config bare_world []))"
  by (simp add: run_inference_def default_config_def returns_def)

text \<open>
  Claim C3, amended. For every prompt that is not empty, when no credential is
  configured, \<open>run_inference\<close> does not raise, sends no request and sleeps never; its
  content is the development-mode marker followed by the first 50 characters of the
  prompt and three dots, and its usage has \<^verbatim>\<open>prompt_tokens\<close> equal to the number
  of whitespace-separated words of the prompt, \<^verbatim>\<open>completion_tokens\<close> equal to 10
  and \<^verbatim>\<open>total_tokens\<close> equal to their sum. The empty prompt raises a
  \<^verbatim>\<open>PipelineError\<close>.
\<close>

theorem run_inference_mock:
  "(prompt \<noteq> [] \<and> llm_api_key cfg = [] \<longrightarrow>
      run_inference cfg w prompt =
        (Inr (PDict
           [(''content'',
               PStr (''[Development Mode] Mock response for: '' @ take 50 prompt @ ''...'')),
            (''usage'',
               PDict [(''prompt_tokens'', PInt (int (length (py_split prompt)))),
                      (''completion_tokens'', PInt 10),
                      (''total_tokens'', PInt (int (length (py_split prompt)) + 10))])]),
         \<lparr> sleeps = [], requests = 0 \<rparr>))
   \<and> (prompt = [] \<longrightarrow>
      fst (run_inference cfg w prompt) =
        Inl (PipelineError ''Cannot run inference with empty prompt''))"
  by (simp add: run_inference_def mock_result_def no_effects_def)

theorem run_inference_mock_witness:
  "run_inference default_config bare_world ''Tell me  a joke'' =
     (Inr (PDict
        [(''content'', PStr ''[Development Mode] Mock response for: Tell me  a joke...''),
         (''usage'',
            PDict [(''prompt_tokens'', PInt 4),
                   (''completion_tokens'', PInt 10),
                   (''total_tokens'', PInt 14)])]),
      \<lparr> sleeps = [], requests = 0 \<rparr>)
   \<and> fst (run_inference default_config bare_world []) =
        Inl (PipelineError ''Cannot run inference with empty prompt'')"
  using run_inference_mock [of "''Tell me  a joke''" default_config bare_world]
    run_inference_mock [of "[]" default_config bare_world]
  by (simp add: default_config_def py_split_def is_space_def)

section \<open>Template loading\<close>

text \<open>
  Claim C8, as stated, fails: a template file that exists and cannot be read (here:
  permission denied) makes \<open>load_template\<close> raise; no warning is logged and no
  fallback is returned.
\<close>

theorem load_template_unreadable_raises:
  "load_template default_config locked_world (Some ''greeting.txt'') =
     (Inl (OSError ''Permission denied''), [])
   \<and> \<not> returns (fst (load_template default_config locked_world (Some ''greeting.txt'')))"
  by (simp add: load_template_def locked_world_def bare_world_def returns_def)

text \<open>
  Claim C8, amended. For every template name whose file is not found
  (\<^verbatim>\<open>FileNotFoundError\<close>), template loading logs one warning and returns the
  built-in fallback template; any other error of opening or reading the file is
  raised to the caller, and a file that is read is returned as it is.
\<close>

theorem load_template_fallback:
  "(open_read w (template_path_of cfg w template_name) = Inl e \<and> is_FileNotFoundError e \<longrightarrow>
      load_template cfg w template_name =
        (Inr ''User: {user_input}\<newline>Context: {context}\<newline>Response:'',
         [(WARNING, ''Template file not found: '' @ template_path_of cfg w template_name @
                    '', using fallback template'')]))
   \<and> (open_read w (template_path_of cfg w template_name) = Inl e \<and> \<not> is_FileNotFoundError e \<longrightarrow>
      load_template cfg w template_name = (Inl e, []))
   \<and> (open_read w (template_path_of cfg w template_name) = Inr s \<longrightarrow>
      load_template cfg w template_name = (Inr s, []))"
  by (cases e)
     (simp_all add: load_template_def template_path_of_def is_FileNotFoundError_def
        fallback_template_def Let_def)

theorem load_template_fallback_witness:
  "load_template default_config bare_world None =
     (Inr ''User: {user_input}\<newline>Context: {context}\<newline>Response:'',
      [(WARNING, ''Template file not found: prompt_templates/default.txt, using fallback template'')])
   \<and> load_template default_config locked_world None = (Inl (OSError ''Permission denied''), [])
   \<and> load_template default_config
        (bare_world \<lparr> open_read := (\<lambda>p. Inr ''{user_input}'') \<rparr>) (Some ''t.txt'') =
      (Inr ''{user_input}'', [])"
  using load_template_fallback
      [of bare_world default_config None "FileNotFoundError ''prompt_templates/default.txt''"]
    load_template_fallback
      [of locked_world default_config None "OSError ''Permission denied''"]
    load_template_fallback
      [of "bare_world \<lparr> open_read := (\<lambda>p. Inr ''{user_input}'') \<rparr>" default_config
          "Some ''t.txt''" _ "''{user_input}''"]
  by (simp add: template_path_of_def bare_world_def locked_world_def default_config_def
        is_FileNotFoundError_def)

section \<open>Stage 2: the properties of compose\_prompt\<close>

text \<open>The scanner on a template written as segments, and the rendering of its pieces.\<close>

lemma parse_template_text:
  "brace_free t \<Longrightarrow>
   parse_template None (t @ r) = map_option ((@) (map Lit t)) (parse_template None r)"
proof (induction t)
  case Nil
  show ?case by (cases "parse_template None r") simp_all
next
  case (Cons c t)
  then have "c \<noteq> CHR ''{''" "c \<noteq> CHR ''}''" "brace_free t"
    by (simp_all add: brace_free_def)
  with Cons.IH show ?case
    by (cases "parse_template None r") simp_all
qed

lemma plain_name_user_input: "plain_name ''user_input''"
  by (simp add: plain_name_def)

lemma plain_name_context: "plain_name ''context''"
  by (simp add: plain_name_def)

lemma parse_template_user_input:
  "parse_template None (''{user_input}'' @ r) =
     map_option (Cons (Field ''user_input'')) (parse_template None r)"
  using plain_name_user_input by simp

lemma parse_template_context:
  "parse_template None (''{context}'' @ r) =
     map_option (Cons (Field ''context'')) (parse_template None r)"
  using plain_name_context by simp

lemma parse_template_seg:
  "plain_seg sg \<Longrightarrow>
   parse_template None (seg_source sg @ r) =
     map_option ((@) (seg_pieces sg)) (parse_template None r)"
proof (cases sg)
  case (Text t)
  assume "plain_seg sg"
  with Text show ?thesis by (simp add: parse_template_text)
next
  case UserInput
  have "(@) [Field ''user_input''] = Cons (Field ''user_input'')" by (rule ext) simp
  with UserInput show ?thesis using parse_template_user_input [of r] by simp
next
  case Context
  have "(@) [Field ''context''] = Cons (Field ''context'')" by (rule ext) simp
  with Context show ?thesis using parse_template_context [of r] by simp
qed

lemma parse_template_segs:
  "list_all plain_seg segs \<Longrightarrow>
   parse_template None (template_of segs) = Some (concat (map seg_pieces segs))"
proof (induction segs)
  case Nil
  show ?case by (simp add: template_of_def)
next
  case (Cons sg segs)
  then have p: "plain_seg sg" and IH: "parse_template None (template_of segs) = Some (concat (map seg_pieces segs))"
    by simp_all
  have "template_of (sg # segs) = seg_source sg @ template_of segs"
    by (simp add: template_of_def)
  then show ?case
    using parse_template_seg [OF p, of "template_of segs"] IH by simp
qed

lemma render_lits:
  "render w kw (map Lit t @ ps) = and_then (render w kw ps) (\<lambda>r. Inr (t @ r))"
proof (induction t)
  case Nil
  show ?case by (cases "render w kw ps") simp_all
next
  case (Cons c t)
  then show ?case by (cases "render w kw ps") simp_all
qed

lemma render_segs:
  "render w [(''user_input'', u), (''context'', c)] (concat (map seg_pieces segs)) =
     Inr (filled w u c segs)"
proof (induction segs)
  case Nil
  show ?case by (simp add: filled_def)
next
  case (Cons sg segs)
  then show ?case
    by (cases sg) (simp_all add: filled_def render_lits)
qed

lemma py_format_segs:
  "list_all plain_seg segs \<Longrightarrow>
   py_format w (template_of segs) [(''user_input'', u), (''context'', c)] = Inr (filled w u c segs)"
  by (simp add: py_format_def parse_template_segs render_segs)

text \<open>
  Claim C7. For every preprocessed dict that has the keys \<^verbatim>\<open>input\<close> and
  \<^verbatim>\<open>context\<close>, and every template made of text without braces and of the
  placeholders \<^verbatim>\<open>{user_input}\<close> and \<^verbatim>\<open>{context}\<close>, \<open>compose_prompt\<close>
  returns the template with each placeholder replaced by the input and the context
  (a string as it is, another value as Python formats it). For every dict without
  the key \<^verbatim>\<open>input\<close>, or without the key \<^verbatim>\<open>context\<close>, it raises the
  \<^verbatim>\<open>PipelineError\<close> of a missing key, whatever the template.
\<close>

theorem compose_prompt_substitutes:
  "(list_all plain_seg segs \<and> fst (load_template cfg w template_name) = Inr (template_of segs)
      \<and> map_of kvs ''input'' = Some u \<and> map_of kvs ''context'' = Some c \<longrightarrow>
      compose_prompt cfg w (PDict kvs) template_name = Inr (filled w u c segs))
   \<and> (map_of kvs ''input'' = None \<longrightarrow>
      compose_prompt cfg w (PDict kvs) template_name =
        Inl (PipelineError (''Missing required key in preprocessed data: '' @ py_repr_str ''input'')))
   \<and> (map_of kvs ''input'' \<noteq> None \<and> map_of kvs ''context'' = None \<longrightarrow>
      compose_prompt cfg w (PDict kvs) template_name =
        Inl (PipelineError (''Missing required key in preprocessed data: '' @ py_repr_str ''context'')))"
  by (auto simp add: compose_prompt_def py_format_segs)

text \<open>The template and the dict of the repository's test, and a dict without each key.\<close>

theorem compose_prompt_substitutes_witness:
  "compose_prompt default_config bare_world
     (PDict [(''input'', PStr ''hello''), (''context'', PStr ''greeting'')]) None =
     Inr ''User: hello\<newline>Context: greeting\<newline>Response:''
   \<and> compose_prompt default_config bare_world (PDict [(''context'', PStr ''greeting'')]) None =
     Inl (PipelineError (''Missing required key in preprocessed data: 'input'' @ [CHR 0x27]))
   \<and> compose_prompt default_config bare_world (PDict [(''input'', PStr ''hello'')]) None =
     Inl (PipelineError (''Missing required key in preprocessed data: 'context'' @ [CHR 0x27]))"
  using compose_prompt_substitutes
      [of "[Text ''User: '', UserInput, Text ''\<newline>Context: '', Context, Text ''\<newline>Response:'']"
          default_config bare_world None
          "[(''input'', PStr ''hello''), (''context'', PStr ''greeting'')]"
          "PStr ''hello''" "PStr ''greeting''"]
    compose_prompt_substitutes
      [of _ default_config bare_world None "[(''context'', PStr ''greeting'')]"]
    compose_prompt_substitutes
      [of _ default_config bare_world None "[(''input'', PStr ''hello'')]"]
  by (simp add: load_template_def bare_world_def fallback_template_def template_of_def
        filled_def format_value_def brace_free_def py_repr_str_def repr_char_def Let_def)

section \<open>Stage 3: the retry loop of run\_inference\<close>

text \<open>
  One attempt under each kind of answer, and the loop over a run of attempts that all
  fail in the same way.
\<close>

lemma attempt_body_non_200:
  "non_200 w k \<Longrightarrow> attempt_body cfg w k = Inr None"
  by (auto simp add: non_200_def attempt_body_def split: sum.splits)



lemma inference_loop_non_200:
  "non_200 w a \<Longrightarrow>
   inference_loop cfg w (a # rest) = after_request [] (inference_loop cfg w rest)"
  by (simp add: attempt_body_non_200)

lemma inference_loop_all_non_200:
  "list_all (non_200 w) as \<Longrightarrow>
   inference_loop cfg w as =
     (Inl (PipelineError ''Inference failed''), \<lparr> sleeps = [], requests = length as \<rparr>)"
proof (induction as)
  case Nil
  show ?case by (simp add: no_effects_def)
next
  case (Cons a as)
  then have "non_200 w a" "list_all (non_200 w) as" by simp_all
  with Cons.IH show ?case
    by (simp add: inference_loop_non_200 after_request_def del: inference_loop.simps)
qed





text \<open>
  Claim C5. When a credential is configured and every attempt is answered with a
  status other than 200, \<open>run_inference\<close> makes all \<^verbatim>\<open>max_retries\<close> requests
  without sleeping and then raises the \<^verbatim>\<open>PipelineError\<close> ``Inference failed'',
  whose message differs from the one of the transport failure. With
  \<^verbatim>\<open>max_retries = 1\<close> and an endpoint that answers 400, it raises after one
  request.
\<close>

theorem run_inference_non_200:
  "(llm_api_key cfg \<noteq> [] \<and> prompt \<noteq> [] \<and> (\<forall>k < nat (max_retries cfg). non_200 w k) \<longrightarrow>
      run_inference cfg w prompt =
        (Inl (PipelineError ''Inference failed''),
         \<lparr> sleeps = [], requests = nat (max_retries cfg) \<rparr>))
   \<and> ''Inference failed'' \<noteq>
        ''Failed to get response after '' @ str_int (max_retries cfg) @ '' attempts''"
proof -
  have "list_all (non_200 w) [0..<nat (max_retries cfg)]"
    if "\<forall>k < nat (max_retries cfg). non_200 w k"
    using that by (simp add: list_all_iff)
  then show ?thesis
    by (simp add: run_inference_def inference_loop_all_non_200)
qed

theorem run_inference_non_200_witness:
  "run_inference (keyed_config \<lparr> max_retries := 1 \<rparr>) bad_request_world ''Test prompt'' =
     (Inl (PipelineError ''Inference failed''), \<lparr> sleeps = [], requests = 1 \<rparr>)
   \<and> run_inference keyed_config bad_request_world ''Test prompt'' =
     (Inl (PipelineError ''Inference failed''), \<lparr> sleeps = [], requests = 3 \<rparr>)"
  using run_inference_non_200 [of "keyed_config \<lparr> max_retries := 1 \<rparr>" "''Test prompt''" bad_request_world]
    run_inference_non_200 [of keyed_config "''Test prompt''" bad_request_world]
  by (simp add: keyed_config_def default_config_def bad_request_world_def bare_world_def non_200_def)
















section \<open>The orchestrator: the properties of process\<close>

text \<open>
  The body of \<^verbatim>\<open>process\<close> is the steps before the stages followed by the four
  stages, the validation of the output and the post-hooks; \<^verbatim>\<open>process\<close> returns
  what the body returns, and turns what it raises into one of two envelopes. The
  errors of the validation are never of class \<^verbatim>\<open>PipelineError\<close>.
\<close>

lemma process_body_stages:
  "process_body cfg w pre_hooks post_hooks input_text context template_name =
     and_then (stage_inputs cfg w pre_hooks input_text context) (\<lambda>tc.
     and_then (preprocess_input cfg (fst tc) (snd tc)) (\<lambda>preprocessed.
     and_then (compose_prompt cfg w preprocessed template_name) (\<lambda>prompt.
     and_then (fst (run_inference cfg w prompt)) (\<lambda>inference_result.
     and_then (postprocess_output cfg w inference_result (snd tc)) (\<lambda>result.
     and_then (log_token_usage result) (\<lambda>u.
     and_then (if validate_schemas cfg then validate_output w result else Inr result)
       (\<lambda>result.
     run_hooks post_hooks result)))))))"
  by (simp add: process_body_def stage_inputs_def and_then_def split: sum.splits)

lemma process_PipelineError:
  "process_body cfg w pre_hooks post_hooks input_text context template_name =
     Inl (PipelineError m) \<Longrightarrow>
   process cfg w pre_hooks post_hooks input_text context template_name =
     Inr (failure_envelope m input_text context)"
  by (simp add: process_def failure_envelope_def)

lemma process_other_error:
  "process_body cfg w pre_hooks post_hooks input_text context template_name = Inl e \<Longrightarrow>
   \<not> is_PipelineError e \<Longrightarrow>
   process cfg w pre_hooks post_hooks input_text context template_name =
     Inr internal_error_envelope"
  by (cases e) (simp_all add: process_def internal_error_envelope_def is_PipelineError_def)

lemma process_returned:
  "process_body cfg w pre_hooks post_hooks input_text context template_name = Inr r \<Longrightarrow>
   process cfg w pre_hooks post_hooks input_text context template_name = Inr r"
  by (simp add: process_def)

lemma validate_input_unclassified:
  "validate_input w d = Inl e \<Longrightarrow> \<not> is_PipelineError e"
  by (auto simp add: validate_input_def is_PipelineError_def
      split: if_splits pyval.splits option.splits)

lemma validate_output_unclassified:
  "validate_output w d = Inl e \<Longrightarrow> \<not> is_PipelineError e"
  by (auto simp add: validate_output_def is_PipelineError_def
      split: if_splits pyval.splits option.splits)

text \<open>
  So a failure of the input validation is answered with the envelope of an
  unclassified error: with pydantic installed, a blank input text is.
\<close>

lemma process_validation_failure:
  assumes "validate_schemas cfg"
    and "run_hooks pre_hooks (PDict [(''input_text'', input_text), (''context'', ctx)]) = Inr d"
    and "validate_input w d = Inl e"
  shows "process cfg w pre_hooks post_hooks input_text ctx template_name =
     Inr internal_error_envelope"
proof -
  from assms have "process_body cfg w pre_hooks post_hooks input_text ctx template_name = Inl e"
    by (simp add: process_body_def)
  moreover from assms(3) have "\<not> is_PipelineError e"
    by (rule validate_input_unclassified)
  ultimately show ?thesis by (rule process_other_error)
qed

lemma process_blank_input_with_pydantic:
  "process default_config pydantic_world [] [] (PStr ''   '') PNone None =
     Inr (PDict [(''error'', PStr ''Internal pipeline error''), (''status'', PStr ''failed'')])"
proof -
  have "validate_input pydantic_world (PDict [(''input_text'', PStr ''   ''), (''context'', PNone)]) =
      Inl (ValidationError ''input_text cannot be empty'')"
    by (simp add: validate_input_def pydantic_world_def bare_world_def py_strip_def is_space_def)
  then show ?thesis
    using process_validation_failure [of default_config "[]" "PStr ''   ''" PNone _ pydantic_world]
    by (simp add: default_config_def internal_error_envelope_def)
qed

section \<open>The shape of the envelopes of process\<close>

text \<open>
  What the body returns is what the post-hooks make of a success-shaped envelope: the
  one \<open>postprocess_output\<close> built, or the one the validation rebuilt from it.
\<close>

lemma success_only_fields:
  "success_only (PDict [(''final_output'', a), (''context_used'', b), (''timestamp'', c),
                        (''token_usage'', d)])"
  by (simp add: success_only_def success_shaped_def failure_shaped_def has_key_def)

lemma postprocess_output_success_only:
  assumes "postprocess_output cfg w ir c = Inr r"
  shows "success_only r"
proof -
  from assms obtain out_v usage where
    out: "(case out_v of
          PStr s \<Rightarrow>
            (let processed_output = (if uppercase_output cfg then py_upper s else s)
             in Inr (PDict [(''final_output'', PStr processed_output),
                            (''context_used'', c),
                            (''timestamp'', time_time w),
                            (''token_usage'', if py_truthy usage then usage else PNone)]))
        | _ \<Rightarrow> Inl (PipelineError (''Output must be a string, got '' @ py_type_repr out_v))) = Inr r"
    unfolding postprocess_output_def and_then_eq_Inr by blast
  then show ?thesis
    by (cases out_v) (auto simp add: success_only_fields Let_def)
qed

lemma validate_output_fields:
  assumes "validate_output w r = Inr r'"
  shows "r' = r \<or> (\<exists>a b c d. r' = PDict [(''final_output'', a), (''context_used'', b),
                                            (''timestamp'', c), (''token_usage'', d)])"
proof (cases "PYDANTIC_AVAILABLE w")
  case False
  with assms show ?thesis by (simp add: validate_output_def)
next
  case True
  with assms show ?thesis
    unfolding validate_output_def
    by (simp split: pyval.splits option.splits if_splits) blast+
qed

lemma run_hooks_keeps_success:
  "list_all keeps_success hs \<Longrightarrow> success_only r \<Longrightarrow> run_hooks hs r = Inr r' \<Longrightarrow>
   success_only r'"
proof (induction hs arbitrary: r)
  case Nil
  then show ?case by simp
next
  case (Cons h hs)
  from Cons.prems(3) obtain r1 where h: "h r = Inr r1" and rest: "run_hooks hs r1 = Inr r'"
    by (auto simp add: and_then_eq_Inr)
  from Cons.prems(1) have kh: "keeps_success h" and khs: "list_all keeps_success hs"
    by simp_all
  from kh Cons.prems(2) h have "success_only r1"
    unfolding keeps_success_def by blast
  then show ?case using Cons.IH [OF khs _ rest] by blast
qed

lemma process_body_returns:
  assumes "process_body cfg w pre_hooks post_hooks input_text ctx template_name = Inr env"
  shows "\<exists>r. success_only r \<and> run_hooks post_hooks r = Inr env"
proof -
  from assms obtain tc p prompt ir result u result' where
      post: "postprocess_output cfg w ir (snd tc) = Inr result"
    and val: "(if validate_schemas cfg then validate_output w result else Inr result) = Inr result'"
    and hooks: "run_hooks post_hooks result' = Inr env"
    unfolding process_body_stages and_then_eq_Inr by auto
  from post have "success_only result" by (rule postprocess_output_success_only)
  with val have "success_only result'"
    using validate_output_fields [of w result result'] success_only_fields
    by (auto split: if_splits)
  with hooks show ?thesis by blast
qed

lemma failure_envelope_shape:
  "failure_shaped (failure_envelope m input_text ctx) \<and>
   \<not> success_shaped (failure_envelope m input_text ctx)"
  by (simp add: failure_envelope_def failure_shaped_def success_shaped_def has_key_def)

lemma internal_error_envelope_shape:
  "failure_shaped internal_error_envelope \<and> \<not> success_shaped internal_error_envelope"
  by (simp add: internal_error_envelope_def failure_shaped_def success_shaped_def has_key_def)

lemma process_cases:
  "\<exists>env. process cfg w pre_hooks post_hooks input_text ctx template_name = Inr env
     \<and> ((\<exists>r. success_only r \<and> run_hooks post_hooks r = Inr env)
          \<or> (\<exists>m. env = failure_envelope m input_text ctx)
          \<or> env = internal_error_envelope)"
proof (cases "process_body cfg w pre_hooks post_hooks input_text ctx template_name")
  case (Inr env)
  from process_body_returns [OF Inr] process_returned [OF Inr] show ?thesis
    by blast
next
  case (Inl e)
  show ?thesis
  proof (cases "is_PipelineError e")
    case True
    then obtain m where "e = PipelineError m"
      by (cases e) (simp_all add: is_PipelineError_def)
    with Inl have "process cfg w pre_hooks post_hooks input_text ctx template_name =
        Inr (failure_envelope m input_text ctx)"
      by (simp add: process_PipelineError)
    then show ?thesis by blast
  next
    case False
    with Inl have "process cfg w pre_hooks post_hooks input_text ctx template_name =
        Inr internal_error_envelope"
      by (simp add: process_other_error)
    then show ?thesis by blast
  qed
qed

lemma process_sample:
  "process_body default_config bare_world [] post_hooks (PStr ''Hello'') PNone None =
     run_hooks post_hooks
       (PDict [(''final_output'',
                  PStr ''[Development Mode] Mock response for: User: hello\<newline>Context: None\<newline>Response:...''),
               (''context_used'', PNone),
               (''timestamp'', PFloat 0),
               (''token_usage'',
                  PDict [(''prompt_tokens'', PInt 5),
                         (''completion_tokens'', PInt 10),
                         (''total_tokens'', PInt 15)])])"
  by (simp add: process_body_def default_config_def bare_world_def
        validate_input_def validate_output_def slice50_def preprocess_input_def
        py_strip_def py_lower_def is_space_def lower_char_def
        compose_prompt_def load_template_def fallback_template_def py_format_def plain_name_def
        format_value_def run_inference_def mock_result_def py_split_def
        postprocess_output_def py_truthy_def log_token_usage_def has_key_def)

lemma keeps_success_add_field_hook: "keeps_success add_field_hook"
  by (auto simp add: keeps_success_def add_field_hook_def success_only_def success_shaped_def
        failure_shaped_def has_key_def map_add_def
      split: pyval.splits option.splits)

text \<open>
  Claim C4, as stated, fails: the post-hooks run after everything else, on the
  envelope that \<open>process\<close> then returns. With a post-hook that returns an empty
  dict the envelope has neither field set; with one that adds \<^verbatim>\<open>error\<close> and
  \<^verbatim>\<open>status = "failed"\<close> to the result it has both.
\<close>

theorem process_envelope_shape_counterexample:
  "process default_config bare_world [] [drop_all_hook] (PStr ''Hello'') PNone None =
     Inr (PDict [])
   \<and> \<not> success_shaped (PDict []) \<and> \<not> failure_shaped (PDict [])
   \<and> \<not> exactly_one_shape (PDict [])
   \<and> process default_config bare_world [] [mark_failed_hook] (PStr ''Hello'') PNone None =
     Inr (PDict [(''error'', PNone),
                 (''status'', PStr ''failed''),
                 (''final_output'',
                    PStr ''[Development Mode] Mock response for: User: hello\<newline>Context: None\<newline>Response:...''),
                 (''context_used'', PNone),
                 (''timestamp'', PFloat 0),
                 (''token_usage'',
                    PDict [(''prompt_tokens'', PInt 5),
                           (''completion_tokens'', PInt 10),
                           (''total_tokens'', PInt 15)])])
   \<and> \<not> exactly_one_shape
         (PDict [(''error'', PNone),
                 (''status'', PStr ''failed''),
                 (''final_output'',
                    PStr ''[Development Mode] Mock response for: User: hello\<newline>Context: None\<newline>Response:...''),
                 (''context_used'', PNone),
                 (''timestamp'', PFloat 0),
                 (''token_usage'',
                    PDict [(''prompt_tokens'', PInt 5),
                           (''completion_tokens'', PInt 10),
                           (''total_tokens'', PInt 15)])])"
  by (simp add: process_def process_sample drop_all_hook_def mark_failed_hook_def
        exactly_one_shape_def success_shaped_def failure_shaped_def has_key_def)

text \<open>
  Claim C4, amended. For every input and every sequence of pre-hooks, the envelope
  returned by \<open>process\<close> is either a failure envelope built by \<open>process\<close>
  itself, with the failure fields and none of the success fields, or what the
  post-hooks return on an envelope with the success fields and not the failure
  fields. So whenever every registered post-hook maps such success envelopes to such
  success envelopes, and in particular when no post-hook is registered, the returned
  envelope has exactly one of the two field sets.
\<close>

theorem process_envelope_shape:
  "(list_all keeps_success post_hooks \<longrightarrow>
      (\<exists>env. process cfg w pre_hooks post_hooks input_text ctx template_name = Inr env
             \<and> exactly_one_shape env))
   \<and> (post_hooks = [] \<longrightarrow>
      (\<exists>env. process cfg w pre_hooks post_hooks input_text ctx template_name = Inr env
             \<and> exactly_one_shape env))
   \<and> (\<exists>env. process cfg w pre_hooks post_hooks input_text ctx template_name = Inr env
         \<and> ((failure_shaped env \<and> \<not> success_shaped env)
              \<or> (\<exists>r. success_only r \<and> run_hooks post_hooks r = Inr env)))"
proof -
  have main: "\<exists>env. process cfg w pre_hooks post_hooks input_text ctx template_name = Inr env
         \<and> ((failure_shaped env \<and> \<not> success_shaped env)
              \<or> (\<exists>r. success_only r \<and> run_hooks post_hooks r = Inr env))"
    using process_cases [of cfg w pre_hooks post_hooks input_text ctx template_name]
      failure_envelope_shape internal_error_envelope_shape
    by auto
  have keep: "\<exists>env. process cfg w pre_hooks post_hooks input_text ctx template_name = Inr env
             \<and> exactly_one_shape env" if k: "list_all keeps_success post_hooks"
  proof -
    from main obtain env where
        env: "process cfg w pre_hooks post_hooks input_text ctx template_name = Inr env"
      and sh: "(failure_shaped env \<and> \<not> success_shaped env)
              \<or> (\<exists>r. success_only r \<and> run_hooks post_hooks r = Inr env)"
      by blast
    from sh have "exactly_one_shape env"
    proof
      assume "failure_shaped env \<and> \<not> success_shaped env"
      then show ?thesis by (simp add: exactly_one_shape_def)
    next
      assume "\<exists>r. success_only r \<and> run_hooks post_hooks r = Inr env"
      then obtain r where "success_only r" "run_hooks post_hooks r = Inr env" by blast
      with k have "success_only env" by (rule run_hooks_keeps_success)
      then show ?thesis by (simp add: exactly_one_shape_def success_only_def)
    qed
    with env show ?thesis by blast
  qed
  from keep main show ?thesis by auto
qed

text \<open>
  A post-hook that adds a field, as the one of the repository's examples does, and a
  request that fails.
\<close>

theorem process_envelope_shape_witness:
  "process default_config bare_world [] [add_field_hook] (PStr ''Hello'') PNone None =
     Inr (PDict [(''final_output'',
                    PStr ''[Development Mode] Mock response for: User: hello\<newline>Context: None\<newline>Response:...''),
                 (''context_used'', PNone),
                 (''timestamp'', PFloat 0),
                 (''token_usage'',
                    PDict [(''prompt_tokens'', PInt 5),
                           (''completion_tokens'', PInt 10),
                           (''total_tokens'', PInt 15)]),
                 (''processed_at'', PFloat 1)])
   \<and> exactly_one_shape
         (PDict [(''final_output'',
                    PStr ''[Development Mode] Mock response for: User: hello\<newline>Context: None\<newline>Response:...''),
                 (''context_used'', PNone),
                 (''timestamp'', PFloat 0),
                 (''token_usage'',
                    PDict [(''prompt_tokens'', PInt 5),
                           (''completion_tokens'', PInt 10),
                           (''total_tokens'', PInt 15)]),
                 (''processed_at'', PFloat 1)])
   \<and> process default_config bare_world [failing_hook] [] (PStr ''Hello'') PNone None =
     Inr (PDict [(''error'', PStr ''Internal pipeline error''), (''status'', PStr ''failed'')])
   \<and> exactly_one_shape
         (PDict [(''error'', PStr ''Internal pipeline error''), (''status'', PStr ''failed'')])"
proof -
  have p1: "process default_config bare_world [] [add_field_hook] (PStr ''Hello'') PNone None =
     Inr (PDict [(''final_output'',
                    PStr ''[Development Mode] Mock response for: User: hello\<newline>Context: None\<newline>Response:...''),
                 (''context_used'', PNone),
                 (''timestamp'', PFloat 0),
                 (''token_usage'',
                    PDict [(''prompt_tokens'', PInt 5),
                           (''completion_tokens'', PInt 10),
                           (''total_tokens'', PInt 15)]),
                 (''processed_at'', PFloat 1)])"
    by (simp add: process_def process_sample add_field_hook_def)
  have p2: "process default_config bare_world [failing_hook] [] (PStr ''Hello'') PNone None =
     Inr (PDict [(''error'', PStr ''Internal pipeline error''), (''status'', PStr ''failed'')])"
    by (simp add: process_def process_body_def failing_hook_def)
  have k: "list_all keeps_success [add_field_hook]"
    by (simp add: keeps_success_add_field_hook)
  show ?thesis
    using process_envelope_shape
        [of "[add_field_hook]" default_config bare_world "[]" "PStr ''Hello''" PNone None]
      process_envelope_shape
        [of "[]" default_config bare_world "[failing_hook]" "PStr ''Hello''" PNone None]
      p1 p2 k
    by simp
qed

section \<open>The orchestrator with exits: the properties of process\_full\<close>









lemma process_handlers_exit:
  "is_exit s \<Longrightarrow> process_handlers s objs = Inl s"
  by (cases s) (simp_all add: is_exit_def)







text \<open>
  On hooks that raise no exit and change no object, \<open>process_full\<close> is
  \<open>process\<close>.
\<close>

lemma pure_hook_apply:
  "pure_hook h d objs =
     (case h d of Inl e \<Rightarrow> (Inl (Error e), objs) | Inr v \<Rightarrow> (Inr v, objs))"
  by (simp add: pure_hook_def)

lemma run_effect_hooks_pure:
  "run_effect_hooks (map pure_hook hs) d objs =
     (case run_hooks hs d of Inl e \<Rightarrow> (Inl (Error e), objs) | Inr v \<Rightarrow> (Inr v, objs))"
proof (induction hs arbitrary: d)
  case Nil
  show ?case by simp
next
  case (Cons h hs)
  show ?case
  proof (cases "h d")
    case (Inl e)
    then have "pure_hook h d objs = (Inl (Error e), objs)" by (simp add: pure_hook_apply)
    with Inl show ?thesis by simp
  next
    case (Inr v)
    then have "pure_hook h d objs = (Inr v, objs)" by (simp add: pure_hook_apply)
    with Inr Cons.IH [of v] show ?thesis by simp
  qed
qed

lemma process_body_stages_of_process:
  "process_body cfg w pre_hooks post_hooks input_text ctx template_name =
     and_then (run_hooks pre_hooks (PDict [(''input_text'', input_text), (''context'', ctx)]))
       (\<lambda>d. and_then (stages_of_process cfg w d template_name) (run_hooks post_hooks))"
  by (simp add: process_body_def stages_of_process_def and_then_def split: sum.splits)

lemma process_full_pure:
  "process_full cfg w (map pure_hook pre_hooks) (map pure_hook post_hooks)
       input_text ctx template_name =
     (case process cfg w pre_hooks post_hooks input_text ctx template_name of
        Inl e \<Rightarrow> Inl (Error e)
      | Inr v \<Rightarrow> Inr v)"
proof -
  let ?d0 = "PDict [(''input_text'', input_text), (''context'', ctx)]"
  show ?thesis
  proof (cases "run_hooks pre_hooks ?d0")
    case (Inl e)
    then show ?thesis
      by (cases e)
         (simp_all add: process_full_def process_full_body_def run_effect_hooks_pure
            process_def process_body_stages_of_process)
  next
    case (Inr d)
    note pre = Inr
    show ?thesis
    proof (cases "stages_of_process cfg w d template_name")
      case (Inl e)
      with pre show ?thesis
        by (cases e)
           (simp_all add: process_full_def process_full_body_def run_effect_hooks_pure
              process_def process_body_stages_of_process)
    next
      case (Inr result)
      show ?thesis
      proof (cases "run_hooks post_hooks result")
        case (Inl e)
        with pre Inr show ?thesis
          by (cases e)
             (simp_all add: process_full_def process_full_body_def run_effect_hooks_pure
                process_def process_body_stages_of_process)
      next
        case (Inr v)
        with pre \<open>stages_of_process cfg w d template_name = Inr result\<close> show ?thesis
          by (simp add: process_full_def process_full_body_def run_effect_hooks_pure
                process_def process_body_stages_of_process)
      qed
    qed
  qed
qed


lemma pure_hook_mutation_free: "mutation_free (pure_hook h)"
  by (auto simp add: mutation_free_def pure_hook_apply split: sum.splits)




end
